theory Spec2Isabelle
  imports Complex_Main
begin

section \<open>Scalars\<close>

text \<open>
  The solvers of \<^verbatim>\<open>sigpy/alg.py\<close> compute with numpy scalars and arrays. A scalar is
  modelled as an exact real number or one of the three special values of the floating-point
  format. The special values follow the rules numpy applies: no arithmetic operation raises,
  a division by zero gives an infinity or \<open>NaN\<close>. On real numbers the operations are
  exact, where float64 rounds, overflows to an infinity and underflows to zero; zero carries
  no sign (so \<open>a / 0\<close> takes the sign of \<open>a\<close>), and complex numbers are left out. What
  is stated about the solvers below is therefore stated operation by operation, as the code
  performs them, or on the special values: nothing is concluded from the exact value of a
  sum, product, quotient or root of real numbers.
\<close>

datatype num = Fin real | PInf | NInf | NaN

fun fneg :: "num \<Rightarrow> num" where
  "fneg (Fin a) = Fin (- a)"
| "fneg PInf = NInf"
| "fneg NInf = PInf"
| "fneg NaN = NaN"

fun fadd :: "num \<Rightarrow> num \<Rightarrow> num" where
  "fadd (Fin a) (Fin b) = Fin (a + b)"
| "fadd NaN _ = NaN"
| "fadd _ NaN = NaN"
| "fadd PInf NInf = NaN"
| "fadd NInf PInf = NaN"
| "fadd PInf _ = PInf"
| "fadd _ PInf = PInf"
| "fadd NInf _ = NInf"
| "fadd _ NInf = NInf"

definition fsub :: "num \<Rightarrow> num \<Rightarrow> num" where
  "fsub a b = fadd a (fneg b)"

fun fmul :: "num \<Rightarrow> num \<Rightarrow> num" where
  "fmul (Fin a) (Fin b) = Fin (a * b)"
| "fmul NaN _ = NaN"
| "fmul _ NaN = NaN"
| "fmul (Fin a) PInf = (if a = 0 then NaN else if 0 < a then PInf else NInf)"
| "fmul (Fin a) NInf = (if a = 0 then NaN else if 0 < a then NInf else PInf)"
| "fmul PInf (Fin b) = (if b = 0 then NaN else if 0 < b then PInf else NInf)"
| "fmul NInf (Fin b) = (if b = 0 then NaN else if 0 < b then NInf else PInf)"
| "fmul PInf PInf = PInf"
| "fmul PInf NInf = NInf"
| "fmul NInf PInf = NInf"
| "fmul NInf NInf = PInf"

fun fdiv :: "num \<Rightarrow> num \<Rightarrow> num" where
  "fdiv (Fin a) (Fin b) =
     (if b = 0 then (if a = 0 then NaN else if 0 < a then PInf else NInf)
      else Fin (a / b))"
| "fdiv NaN _ = NaN"
| "fdiv _ NaN = NaN"
| "fdiv (Fin a) PInf = Fin 0"
| "fdiv (Fin a) NInf = Fin 0"
| "fdiv PInf (Fin b) = (if 0 \<le> b then PInf else NInf)"
| "fdiv NInf (Fin b) = (if 0 \<le> b then NInf else PInf)"
| "fdiv PInf PInf = NaN"
| "fdiv PInf NInf = NaN"
| "fdiv NInf PInf = NaN"
| "fdiv NInf NInf = NaN"

text \<open>
  \<^verbatim>\<open>v ** 0.5\<close> on a numpy scalar, as \<^verbatim>\<open>pow\<close> computes it: \<open>NaN\<close> below zero,
  and both infinities go to \<open>+inf\<close>. (A negative Python float raised to \<open>0.5\<close> is a
  complex number, which the model does not have: a step size \<open>alpha\<close> is taken to be
  a numpy scalar.)
\<close>

fun pow_half :: "num \<Rightarrow> num" where
  "pow_half (Fin a) = (if a < 0 then NaN else Fin (sqrt a))"
| "pow_half PInf = PInf"
| "pow_half NInf = PInf"
| "pow_half NaN = NaN"

fun fabs :: "num \<Rightarrow> num" where
  "fabs (Fin a) = Fin \<bar>a\<bar>"
| "fabs PInf = PInf"
| "fabs NInf = PInf"
| "fabs NaN = NaN"

text \<open>The comparisons \<^verbatim>\<open>a == b\<close> and \<^verbatim>\<open>a < b\<close>: both are false as soon as one side is \<open>NaN\<close>.\<close>

definition feq :: "num \<Rightarrow> num \<Rightarrow> bool" where
  "feq a b = (a \<noteq> NaN \<and> a = b)"

fun fless :: "num \<Rightarrow> num \<Rightarrow> bool" where
  "fless (Fin a) (Fin b) = (a < b)"
| "fless NaN _ = False"
| "fless _ NaN = False"
| "fless _ NInf = False"
| "fless PInf _ = False"
| "fless NInf _ = True"
| "fless _ PInf = True"

text \<open>The minimum of two scalars as \<^verbatim>\<open>amin\<close> takes it: a \<open>NaN\<close> wins.\<close>

fun fmin :: "num \<Rightarrow> num \<Rightarrow> num" where
  "fmin NaN _ = NaN"
| "fmin _ NaN = NaN"
| "fmin a b = (if fless b a then b else a)"

section \<open>Arrays and the numeric operations of \<^verbatim>\<open>sigpy.util\<close>\<close>

text \<open>
  An array is the list of its entries. The operands of an elementwise operation of a solver
  all have the shape of the solver's variable, and numpy raises on shapes it cannot combine;
  the model pairs the entries up and drops those without a partner, so a statement that
  needs equal shapes says so.
\<close>

type_synonym array = "num list"

definition vadd :: "array \<Rightarrow> array \<Rightarrow> array" where
  "vadd v w = map2 fadd v w"

definition vsub :: "array \<Rightarrow> array \<Rightarrow> array" where
  "vsub v w = map2 fsub v w"

definition vmul :: "array \<Rightarrow> array \<Rightarrow> array" where
  "vmul v w = map2 fmul v w"

definition smul :: "num \<Rightarrow> array \<Rightarrow> array" where
  "smul a v = map (fmul a) v"

definition vdivs :: "array \<Rightarrow> num \<Rightarrow> array" where
  "vdivs v a = map (\<lambda>e. fdiv e a) v"

primrec fsum :: "array \<Rightarrow> num" where
  "fsum [] = Fin 0"
| "fsum (e # es) = fadd e (fsum es)"

definition array_copy :: "array \<Rightarrow> array" where
  "array_copy v = v"

text \<open>
  The module \<^verbatim>\<open>sigpy.util\<close> is not part of the sources; its operations are taken
  from the list of numeric operations the spec gives. An in-place operation returns the new
  contents of the array it writes.
\<close>

text \<open>Modelled from the spec: \<^verbatim>\<open>dot(x,y)\<close>, the inner product of two arrays.\<close>

definition util_dot :: "array \<Rightarrow> array \<Rightarrow> num" where
  "util_dot v w = fsum (vmul v w)"

text \<open>Modelled from the spec: \<^verbatim>\<open>norm(x)\<close>, the Euclidean norm.\<close>

definition util_norm :: "array \<Rightarrow> num" where
  "util_norm v = pow_half (util_dot v v)"

text \<open>Modelled from the spec: \<^verbatim>\<open>axpy(y, a, x)\<close>, in place \<^verbatim>\<open>y += a*x\<close>.\<close>

definition util_axpy :: "array \<Rightarrow> num \<Rightarrow> array \<Rightarrow> array" where
  "util_axpy y a v = vadd y (smul a v)"

text \<open>Modelled from the spec: \<^verbatim>\<open>xpay(y, a, x)\<close>, in place \<^verbatim>\<open>y = x + a*y\<close>.\<close>

definition util_xpay :: "array \<Rightarrow> num \<Rightarrow> array \<Rightarrow> array" where
  "util_xpay y a v = vadd v (smul a y)"

text \<open>
  Modelled from the spec: \<^verbatim>\<open>move_to(dst, src)\<close>, which replaces the contents of
  \<^verbatim>\<open>dst\<close> by the values of \<^verbatim>\<open>src\<close> and keeps the handle.
\<close>

definition util_move_to :: "array \<Rightarrow> array \<Rightarrow> array" where
  "util_move_to dst src = src"

text \<open>Modelled from the spec: \<^verbatim>\<open>move(x)\<close>, which changes the device of a value only.\<close>

definition util_move :: "num \<Rightarrow> num" where
  "util_move a = a"

section \<open>The iteration engine: class \<^verbatim>\<open>Alg\<close>\<close>

text \<open>
  An object is a record of its attributes. An attribute that \<^verbatim>\<open>_init\<close> always creates
  is a plain field: before \<^verbatim>\<open>init()\<close> its value is arbitrary, and \<^verbatim>\<open>_init\<close>
  overwrites it without reading it. An attribute that may be missing after \<^verbatim>\<open>init()\<close>
  is an optional field. \<^verbatim>\<open>cleanup()\<close>, which closes the progress bar and deletes
  work arrays, is not modelled.

  An exception leaves the object as it was when the exception was raised, so a raising call
  returns the error together with that state. The progress bar and the device context have
  no part in what the solvers compute and are left out. The operators a caller supplies do
  not raise. An operator returns a fresh array or the very array it was given; the two differ
  only where the code writes to that array in place and reads the result afterwards, which
  it does for \<^verbatim>\<open>gradf\<close> of the gradient method alone. There the result is a value of
  \<open>returned\<close>; everywhere else an operator is a function on the contents.
\<close>

datatype returned = Fresh array | Argument

text \<open>The contents of a returned array, given the present contents of the argument.\<close>

definition contents :: "returned \<Rightarrow> array \<Rightarrow> array" where
  "contents r arg = (case r of Fresh v \<Rightarrow> v | Argument \<Rightarrow> arg)"

datatype error = NotImplementedError | NameError | AttributeError | ValueError

type_synonym ('s, 'a) outcome = "(error \<times> 's) + 'a"

definition seq :: "('s, 'a) outcome \<Rightarrow> ('a \<Rightarrow> ('s, 'b) outcome) \<Rightarrow> ('s, 'b) outcome" where
  "seq m f = (case m of Inl e \<Rightarrow> Inl e | Inr v \<Rightarrow> f v)"

text \<open>Reading an attribute that the object does not have.\<close>

definition getattr :: "'a option \<Rightarrow> 's \<Rightarrow> ('s, 'a) outcome" where
  "getattr a s = (case a of None \<Rightarrow> Inl (AttributeError, s) | Some v \<Rightarrow> Inr v)"

record Alg =
  max_iter :: int
  iter :: nat

definition Alg__init :: "'a Alg_scheme \<Rightarrow> 'a Alg_scheme" where
  "Alg__init s = s"

definition Alg__update :: "'a Alg_scheme \<Rightarrow> ('a Alg_scheme, 'a Alg_scheme) outcome" where
  "Alg__update s = Inl (NotImplementedError, s)"

definition Alg__done :: "'a Alg_scheme \<Rightarrow> bool" where
  "Alg__done s = (max_iter s \<le> int (iter s))"

text \<open>
  The public methods take the hook of the subclass: \<^verbatim>\<open>init\<close> sets the counter to 0
  and runs \<^verbatim>\<open>_init\<close>; \<^verbatim>\<open>update\<close> runs \<^verbatim>\<open>_update\<close> and then adds 1 to the
  counter, which an exception of the hook skips; \<^verbatim>\<open>done\<close> is \<^verbatim>\<open>_done\<close>.
\<close>

definition Alg_init ::
  "('a Alg_scheme \<Rightarrow> 'a Alg_scheme) \<Rightarrow> 'a Alg_scheme \<Rightarrow> 'a Alg_scheme" where
  "Alg_init hook s = hook (s\<lparr>iter := 0\<rparr>)"

definition Alg_update ::
  "('a Alg_scheme \<Rightarrow> ('a Alg_scheme, 'a Alg_scheme) outcome) \<Rightarrow>
   'a Alg_scheme \<Rightarrow> ('a Alg_scheme, 'a Alg_scheme) outcome" where
  "Alg_update hook s = seq (hook s) (\<lambda>s'. Inr (s'\<lparr>iter := iter s' + 1\<rparr>))"

definition Alg_done :: "('a Alg_scheme \<Rightarrow> bool) \<Rightarrow> 'a Alg_scheme \<Rightarrow> bool" where
  "Alg_done hook s = hook s"

section \<open>Power method\<close>

record PowerMethod = Alg +
  pm_A :: "array \<Rightarrow> array"
  pm_x :: array
  pm_max_eig :: num

definition PowerMethod__init :: "PowerMethod \<Rightarrow> PowerMethod" where
  "PowerMethod__init s = s\<lparr>pm_max_eig := PInf\<rparr>"

definition PowerMethod__update :: "PowerMethod \<Rightarrow> (PowerMethod, PowerMethod) outcome" where
  "PowerMethod__update s =
     (let y = pm_A s (pm_x s);
          s1 = s\<lparr>pm_max_eig := util_norm y\<rparr>
      in Inr (s1\<lparr>pm_x := util_move_to (pm_x s1) (vdivs y (pm_max_eig s1))\<rparr>))"

definition PowerMethod_init :: "PowerMethod \<Rightarrow> PowerMethod" where
  "PowerMethod_init = Alg_init PowerMethod__init"

definition PowerMethod_update :: "PowerMethod \<Rightarrow> (PowerMethod, PowerMethod) outcome" where
  "PowerMethod_update = Alg_update PowerMethod__update"

definition PowerMethod_done :: "PowerMethod \<Rightarrow> bool" where
  "PowerMethod_done = Alg_done Alg__done"

section \<open>Proximal point method\<close>

record ProximalPointMethod = Alg +
  pp_proxf :: "num \<Rightarrow> array \<Rightarrow> array"
  pp_alpha :: num
  pp_x :: array

definition ProximalPointMethod__update ::
  "ProximalPointMethod \<Rightarrow> (ProximalPointMethod, ProximalPointMethod) outcome" where
  "ProximalPointMethod__update s =
     Inr (s\<lparr>pp_x := util_move_to (pp_x s) (pp_proxf s (pp_alpha s) (pp_x s))\<rparr>)"

definition ProximalPointMethod_init :: "ProximalPointMethod \<Rightarrow> ProximalPointMethod" where
  "ProximalPointMethod_init = Alg_init Alg__init"

definition ProximalPointMethod_update ::
  "ProximalPointMethod \<Rightarrow> (ProximalPointMethod, ProximalPointMethod) outcome" where
  "ProximalPointMethod_update = Alg_update ProximalPointMethod__update"

definition ProximalPointMethod_done :: "ProximalPointMethod \<Rightarrow> bool" where
  "ProximalPointMethod_done = Alg_done Alg__done"

section \<open>Gradient method\<close>

text \<open>
  The attributes \<^verbatim>\<open>z\<close>, \<^verbatim>\<open>t\<close> and \<^verbatim>\<open>x_old\<close> exist only under the
  configuration that \<^verbatim>\<open>_init\<close> tests, so they are optional fields. The step
  \<^verbatim>\<open>axpy(x, -alpha, gradf_x)\<close> works in place: it reads \<^verbatim>\<open>gradf_x\<close> and then
  writes \<^verbatim>\<open>x\<close>. When \<^verbatim>\<open>gradf\<close> has returned \<^verbatim>\<open>x\<close> itself (as
  \<^verbatim>\<open>lambda x: x\<close> does), \<^verbatim>\<open>gradf_x\<close> holds the new \<open>x\<close> from then on, and the
  residual of the plain method is the norm of the new \<open>x\<close>.
\<close>

record GradientMethod = Alg +
  gm_gradf :: "array \<Rightarrow> returned"
  gm_alpha :: num
  gm_accelerate :: bool
  gm_proxg :: "(num \<Rightarrow> array \<Rightarrow> array) option"
  gm_x :: array
  gm_z :: "array option"
  gm_t :: "num option"
  gm_x_old :: "array option"
  gm_residual :: num

definition GradientMethod__init :: "GradientMethod \<Rightarrow> GradientMethod" where
  "GradientMethod__init s =
     (let s1 = (if gm_accelerate s
                then s\<lparr>gm_z := Some (array_copy (gm_x s)), gm_t := Some (Fin 1)\<rparr>
                else s);
          s2 = (if gm_accelerate s1 \<or> gm_proxg s1 \<noteq> None
                then s1\<lparr>gm_x_old := Some (array_copy (gm_x s1))\<rparr>
                else s1)
      in s2\<lparr>gm_residual := PInf\<rparr>)"

definition GradientMethod__update ::
  "GradientMethod \<Rightarrow> (GradientMethod, GradientMethod) outcome" where
  "GradientMethod__update s =
     seq (if gm_accelerate s \<or> gm_proxg s \<noteq> None
          then seq (getattr (gm_x_old s) s)
                 (\<lambda>x_old. Inr (s\<lparr>gm_x_old := Some (util_move_to x_old (gm_x s))\<rparr>))
          else Inr s) (\<lambda>s1.
     seq (if gm_accelerate s1
          then seq (getattr (gm_z s1) s1)
                 (\<lambda>z. Inr (s1\<lparr>gm_x := util_move_to (gm_x s1) z\<rparr>))
          else Inr s1) (\<lambda>s2.
     let gradf_x = gm_gradf s2 (gm_x s2);
         s3 = s2\<lparr>gm_x := util_axpy (gm_x s2) (fneg (gm_alpha s2))
                            (contents gradf_x (gm_x s2))\<rparr>;
         s4 = (case gm_proxg s3 of
                 None \<Rightarrow> s3
               | Some proxg \<Rightarrow>
                   s3\<lparr>gm_x := util_move_to (gm_x s3) (proxg (gm_alpha s3) (gm_x s3))\<rparr>)
     in
     seq (if gm_accelerate s4
          then seq (getattr (gm_t s4) s4) (\<lambda>t_old.
               let t_new = fdiv (fadd (Fin 1)
                              (pow_half (fadd (Fin 1) (fmul (Fin 4) (fmul t_old t_old)))))
                            (Fin 2);
                   s5 = s4\<lparr>gm_t := Some t_new\<rparr>
               in
               seq (getattr (gm_z s5) s5) (\<lambda>z.
               seq (getattr (gm_x_old s5) s5) (\<lambda>x_old.
               Inr (s5\<lparr>gm_z := Some (util_move_to z
                      (vadd (gm_x s5)
                         (smul (fdiv (fsub t_old (Fin 1)) t_new)
                            (vsub (gm_x s5) x_old))))\<rparr>))))
          else Inr s4) (\<lambda>s6.
     if gm_accelerate s6 \<or> gm_proxg s6 \<noteq> None
     then seq (getattr (gm_x_old s6) s6) (\<lambda>x_old.
            Inr (s6\<lparr>gm_residual :=
                   util_move (util_norm (vdivs (vsub (gm_x s6) x_old)
                                           (pow_half (gm_alpha s6))))\<rparr>))
     else Inr (s6\<lparr>gm_residual := util_move (util_norm (contents gradf_x (gm_x s6)))\<rparr>))))"

definition GradientMethod__done :: "GradientMethod \<Rightarrow> bool" where
  "GradientMethod__done s = (max_iter s \<le> int (iter s) \<or> feq (gm_residual s) (Fin 0))"

definition GradientMethod_init :: "GradientMethod \<Rightarrow> GradientMethod" where
  "GradientMethod_init = Alg_init GradientMethod__init"

definition GradientMethod_update ::
  "GradientMethod \<Rightarrow> (GradientMethod, GradientMethod) outcome" where
  "GradientMethod_update = Alg_update GradientMethod__update"

definition GradientMethod_done :: "GradientMethod \<Rightarrow> bool" where
  "GradientMethod_done = Alg_done GradientMethod__done"

section \<open>Conjugate gradient\<close>

text \<open>
  \<^verbatim>\<open>_init\<close> subtracts \<^verbatim>\<open>A(x)\<close> from \<^verbatim>\<open>b\<close> in place and binds \<^verbatim>\<open>r\<close> to the
  same array, so a later write to \<^verbatim>\<open>r\<close> is a write to \<^verbatim>\<open>b\<close>. With
  \<^verbatim>\<open>max_iter <= 1\<close> and no preconditioner \<^verbatim>\<open>p\<close> is that array as well; \<^verbatim>\<open>r\<close>
  and \<^verbatim>\<open>p\<close> are then never written, because the only writes stand under
  \<^verbatim>\<open>iter < max_iter - 1\<close>. The attribute \<^verbatim>\<open>alpha\<close> exists from the first
  update that reaches its assignment.
\<close>

record ConjugateGradient = Alg +
  cg_A :: "array \<Rightarrow> array"
  cg_P :: "(array \<Rightarrow> array) option"
  cg_x :: array
  cg_b :: array
  cg_rzold :: num
  cg_r :: array
  cg_p :: array
  cg_zero_gradient :: bool
  cg_alpha :: "num option"
  cg_residual :: num

definition ConjugateGradient__init :: "ConjugateGradient \<Rightarrow> ConjugateGradient" where
  "ConjugateGradient__init s =
     (let s1 = s\<lparr>cg_b := vsub (cg_b s) (cg_A s (cg_x s))\<rparr>;
          s2 = s1\<lparr>cg_r := cg_b s1\<rparr>;
          z = (case cg_P s2 of None \<Rightarrow> cg_r s2 | Some P \<Rightarrow> P (cg_r s2));
          s3 = (if 1 < max_iter s2 then s2\<lparr>cg_p := array_copy z\<rparr> else s2\<lparr>cg_p := z\<rparr>);
          s4 = s3\<lparr>cg_zero_gradient := False\<rparr>;
          s5 = s4\<lparr>cg_rzold := util_dot (cg_r s4) z\<rparr>
      in s5\<lparr>cg_residual := util_move (pow_half (cg_rzold s5))\<rparr>)"

definition ConjugateGradient__update ::
  "ConjugateGradient \<Rightarrow> (ConjugateGradient, ConjugateGradient) outcome" where
  "ConjugateGradient__update s =
     (let Ap = cg_A s (cg_p s);
          pAp = util_dot (cg_p s) Ap
      in
      if feq pAp (Fin 0) then Inr (s\<lparr>cg_zero_gradient := True\<rparr>)
      else
        let alpha = fdiv (cg_rzold s) pAp;
            s1 = s\<lparr>cg_alpha := Some alpha\<rparr>;
            s2 = s1\<lparr>cg_x := util_axpy (cg_x s1) alpha (cg_p s1)\<rparr>;
            s3 = (if int (iter s2) < max_iter s2 - 1
                  then
                    let r = util_axpy (cg_r s2) (fneg alpha) Ap;
                        s2a = s2\<lparr>cg_r := r, cg_b := r\<rparr>;
                        z = (case cg_P s2a of Some P \<Rightarrow> P (cg_r s2a) | None \<Rightarrow> cg_r s2a);
                        rznew = util_dot (cg_r s2a) z;
                        beta = fdiv rznew (cg_rzold s2a);
                        s2b = s2a\<lparr>cg_p := util_xpay (cg_p s2a) beta z\<rparr>
                    in s2b\<lparr>cg_rzold := rznew\<rparr>
                  else s2)
        in Inr (s3\<lparr>cg_residual := util_move (pow_half (cg_rzold s3))\<rparr>))"

definition ConjugateGradient__done :: "ConjugateGradient \<Rightarrow> bool" where
  "ConjugateGradient__done s =
     (max_iter s \<le> int (iter s) \<or> cg_zero_gradient s \<or> feq (cg_residual s) (Fin 0))"

definition ConjugateGradient_init :: "ConjugateGradient \<Rightarrow> ConjugateGradient" where
  "ConjugateGradient_init = Alg_init ConjugateGradient__init"

definition ConjugateGradient_update ::
  "ConjugateGradient \<Rightarrow> (ConjugateGradient, ConjugateGradient) outcome" where
  "ConjugateGradient_update = Alg_update ConjugateGradient__update"

definition ConjugateGradient_done :: "ConjugateGradient \<Rightarrow> bool" where
  "ConjugateGradient_done = Alg_done ConjugateGradient__done"

section \<open>Newton's method\<close>

text \<open>
  The last statement of \<^verbatim>\<open>_update\<close> is \<^verbatim>\<open>self.x += alpha * d\<close>. The name
  \<^verbatim>\<open>alpha\<close> is neither a parameter nor a local variable of \<^verbatim>\<open>_update\<close> (those are
  \<^verbatim>\<open>self\<close>, \<^verbatim>\<open>hessfx\<close>, \<^verbatim>\<open>s\<close> and \<^verbatim>\<open>d\<close>), the module binds no global of
  that name (it binds \<^verbatim>\<open>np\<close>, \<^verbatim>\<open>tqdm\<close>, \<^verbatim>\<open>util\<close>, \<^verbatim>\<open>config\<close>, \<^verbatim>\<open>cp\<close> and
  the classes), and it is no builtin: the lookup finds nothing.
\<close>

definition lookup_alpha :: "num option" where
  "lookup_alpha = None"

record NewtonsMethod = Alg +
  nm_gradf :: "array \<Rightarrow> array"
  nm_hessf :: "array \<Rightarrow> array \<Rightarrow> array"
  nm_proxHg :: "(array \<Rightarrow> array) \<Rightarrow> array \<Rightarrow> array"
  nm_sigma :: num
  nm_x :: array
  nm_lamda :: num

definition NewtonsMethod__update ::
  "NewtonsMethod \<Rightarrow> (NewtonsMethod, NewtonsMethod) outcome" where
  "NewtonsMethod__update s0 =
     (let hessfx = nm_hessf s0 (nm_x s0);
          s = nm_proxHg s0 hessfx (vsub (hessfx (nm_x s0)) (nm_gradf s0 (nm_x s0)));
          d = vsub s (nm_x s0);
          s1 = s0\<lparr>nm_lamda := pow_half (util_dot d (hessfx d))\<rparr>
      in case lookup_alpha of
           None \<Rightarrow> Inl (NameError, s1)
         | Some alpha \<Rightarrow> Inr (s1\<lparr>nm_x := vadd (nm_x s1) (smul alpha d)\<rparr>))"

definition NewtonsMethod_init :: "NewtonsMethod \<Rightarrow> NewtonsMethod" where
  "NewtonsMethod_init = Alg_init Alg__init"

definition NewtonsMethod_update ::
  "NewtonsMethod \<Rightarrow> (NewtonsMethod, NewtonsMethod) outcome" where
  "NewtonsMethod_update = Alg_update NewtonsMethod__update"

definition NewtonsMethod_done :: "NewtonsMethod \<Rightarrow> bool" where
  "NewtonsMethod_done = Alg_done Alg__done"

section \<open>Primal-dual hybrid gradient\<close>

text \<open>
  A step size is a scalar or an array. \<^verbatim>\<open>amin\<close> raises \<^verbatim>\<open>ValueError\<close> on an
  array without entries.
\<close>

datatype step = Scalar num | Array array

fun step_mul :: "step \<Rightarrow> array \<Rightarrow> array" where
  "step_mul (Scalar a) v = smul a v"
| "step_mul (Array w) v = vmul w v"

fun step_scale :: "step \<Rightarrow> num \<Rightarrow> step" where
  "step_scale (Scalar a) c = Scalar (fmul a c)"
| "step_scale (Array w) c = Array (map (\<lambda>e. fmul e c) w)"

fun step_div :: "step \<Rightarrow> num \<Rightarrow> step" where
  "step_div (Scalar a) c = Scalar (fdiv a c)"
| "step_div (Array w) c = Array (vdivs w c)"

fun amin_abs :: "step \<Rightarrow> num option" where
  "amin_abs (Scalar a) = Some (fabs a)"
| "amin_abs (Array []) = None"
| "amin_abs (Array (e # es)) = Some (foldl fmin (fabs e) (map fabs es))"

record PrimalDualHybridGradient = Alg +
  pd_proxfc :: "step \<Rightarrow> array \<Rightarrow> array"
  pd_proxg :: "step \<Rightarrow> array \<Rightarrow> array"
  pd_A :: "array \<Rightarrow> array"
  pd_AH :: "array \<Rightarrow> array"
  pd_u :: array
  pd_x :: array
  pd_tau :: step
  pd_sigma :: step
  pd_gamma_primal :: num
  pd_gamma_dual :: num
  pd_x_ext :: array
  pd_u_old :: array
  pd_x_old :: array

definition PrimalDualHybridGradient__init ::
  "PrimalDualHybridGradient \<Rightarrow> PrimalDualHybridGradient" where
  "PrimalDualHybridGradient__init s =
     Alg__init (s\<lparr>pd_x_ext := array_copy (pd_x s),
                  pd_u_old := array_copy (pd_u s),
                  pd_x_old := array_copy (pd_x s)\<rparr>)"

text \<open>
  The step-size adaptation of \<^verbatim>\<open>_update\<close>: the branch taken, the \<^verbatim>\<open>theta\<close> it
  binds and the step sizes it leaves.
\<close>

definition adapt_steps ::
  "PrimalDualHybridGradient \<Rightarrow>
   (PrimalDualHybridGradient, num \<times> PrimalDualHybridGradient) outcome" where
  "adapt_steps s =
     (if fless (Fin 0) (pd_gamma_primal s) \<and> feq (pd_gamma_dual s) (Fin 0) then
        (case amin_abs (pd_tau s) of
           None \<Rightarrow> Inl (ValueError, s)
         | Some m \<Rightarrow>
             let theta = fdiv (Fin 1)
                           (pow_half (fadd (Fin 1) (fmul (fmul (Fin 2) (pd_gamma_primal s)) m)));
                 s1 = s\<lparr>pd_tau := step_scale (pd_tau s) theta\<rparr>
             in Inr (theta, s1\<lparr>pd_sigma := step_div (pd_sigma s1) theta\<rparr>))
      else if feq (pd_gamma_primal s) (Fin 0) \<and> fless (Fin 0) (pd_gamma_dual s) then
        (case amin_abs (pd_sigma s) of
           None \<Rightarrow> Inl (ValueError, s)
         | Some m \<Rightarrow>
             let theta = fdiv (Fin 1)
                           (pow_half (fadd (Fin 1) (fmul (fmul (Fin 2) (pd_gamma_dual s)) m)));
                 s1 = s\<lparr>pd_tau := step_div (pd_tau s) theta\<rparr>
             in Inr (theta, s1\<lparr>pd_sigma := step_scale (pd_sigma s1) theta\<rparr>))
      else Inr (Fin 1, s))"

definition PrimalDualHybridGradient__update ::
  "PrimalDualHybridGradient \<Rightarrow>
   (PrimalDualHybridGradient, PrimalDualHybridGradient) outcome" where
  "PrimalDualHybridGradient__update s =
     (let s1 = s\<lparr>pd_u_old := util_move_to (pd_u_old s) (pd_u s)\<rparr>;
          s2 = s1\<lparr>pd_x_old := util_move_to (pd_x_old s1) (pd_x s1)\<rparr>;
          s3 = s2\<lparr>pd_u := util_move_to (pd_u s2)
                  (pd_proxfc s2 (pd_sigma s2)
                     (vadd (pd_u s2) (step_mul (pd_sigma s2) (pd_A s2 (pd_x_ext s2)))))\<rparr>;
          s4 = s3\<lparr>pd_x := util_move_to (pd_x s3)
                  (pd_proxg s3 (pd_tau s3)
                     (vsub (pd_x s3) (step_mul (pd_tau s3) (pd_AH s3 (pd_u s3)))))\<rparr>
      in seq (adapt_steps s4) (\<lambda>(theta, s5).
           Inr (s5\<lparr>pd_x_ext := util_move_to (pd_x_ext s5)
                  (vadd (pd_x s5) (smul theta (vsub (pd_x s5) (pd_x_old s5))))\<rparr>)))"

definition PrimalDualHybridGradient_init ::
  "PrimalDualHybridGradient \<Rightarrow> PrimalDualHybridGradient" where
  "PrimalDualHybridGradient_init = Alg_init PrimalDualHybridGradient__init"

definition PrimalDualHybridGradient_update ::
  "PrimalDualHybridGradient \<Rightarrow>
   (PrimalDualHybridGradient, PrimalDualHybridGradient) outcome" where
  "PrimalDualHybridGradient_update = Alg_update PrimalDualHybridGradient__update"

definition PrimalDualHybridGradient_done :: "PrimalDualHybridGradient \<Rightarrow> bool" where
  "PrimalDualHybridGradient_done = Alg_done Alg__done"

section \<open>Alternating minimization\<close>

text \<open>
  \<^verbatim>\<open>min1\<close> and \<^verbatim>\<open>min2\<close> take no argument and change variables of the caller; the
  field \<open>am_vars\<close> holds those variables.
\<close>

record 'e AltMin = Alg +
  am_min1 :: "'e \<Rightarrow> 'e"
  am_min2 :: "'e \<Rightarrow> 'e"
  am_vars :: 'e

definition AltMin__update :: "'e AltMin \<Rightarrow> ('e AltMin, 'e AltMin) outcome" where
  "AltMin__update s =
     (let s1 = s\<lparr>am_vars := am_min1 s (am_vars s)\<rparr>
      in Inr (s1\<lparr>am_vars := am_min2 s1 (am_vars s1)\<rparr>))"

definition AltMin_init :: "'e AltMin \<Rightarrow> 'e AltMin" where
  "AltMin_init = Alg_init Alg__init"

definition AltMin_update :: "'e AltMin \<Rightarrow> ('e AltMin, 'e AltMin) outcome" where
  "AltMin_update = Alg_update AltMin__update"

definition AltMin_done :: "'e AltMin \<Rightarrow> bool" where
  "AltMin_done = Alg_done Alg__done"

section \<open>Any solver, and runs of updates\<close>

text \<open>
  The seven classes share the methods of \<^verbatim>\<open>Alg\<close>; a value of \<open>solver\<close> is an object
  of one of them, and each method dispatches on the class.
\<close>

datatype 'e solver =
    Power PowerMethod
  | ProximalPoint ProximalPointMethod
  | Gradient GradientMethod
  | ConjGrad ConjugateGradient
  | Newton NewtonsMethod
  | PDHG PrimalDualHybridGradient
  | Alternating "'e AltMin"

fun solver_iter :: "'e solver \<Rightarrow> nat" where
  "solver_iter (Power s) = iter s"
| "solver_iter (ProximalPoint s) = iter s"
| "solver_iter (Gradient s) = iter s"
| "solver_iter (ConjGrad s) = iter s"
| "solver_iter (Newton s) = iter s"
| "solver_iter (PDHG s) = iter s"
| "solver_iter (Alternating s) = iter s"

fun solver_max_iter :: "'e solver \<Rightarrow> int" where
  "solver_max_iter (Power s) = max_iter s"
| "solver_max_iter (ProximalPoint s) = max_iter s"
| "solver_max_iter (Gradient s) = max_iter s"
| "solver_max_iter (ConjGrad s) = max_iter s"
| "solver_max_iter (Newton s) = max_iter s"
| "solver_max_iter (PDHG s) = max_iter s"
| "solver_max_iter (Alternating s) = max_iter s"

fun solver_init :: "'e solver \<Rightarrow> 'e solver" where
  "solver_init (Power s) = Power (PowerMethod_init s)"
| "solver_init (ProximalPoint s) = ProximalPoint (ProximalPointMethod_init s)"
| "solver_init (Gradient s) = Gradient (GradientMethod_init s)"
| "solver_init (ConjGrad s) = ConjGrad (ConjugateGradient_init s)"
| "solver_init (Newton s) = Newton (NewtonsMethod_init s)"
| "solver_init (PDHG s) = PDHG (PrimalDualHybridGradient_init s)"
| "solver_init (Alternating s) = Alternating (AltMin_init s)"

definition tagged :: "('s \<Rightarrow> 't) \<Rightarrow> ('s, 's) outcome \<Rightarrow> ('t, 't) outcome" where
  "tagged C m = (case m of Inl (e, s) \<Rightarrow> Inl (e, C s) | Inr s \<Rightarrow> Inr (C s))"

fun solver_update :: "'e solver \<Rightarrow> ('e solver, 'e solver) outcome" where
  "solver_update (Power s) = tagged Power (PowerMethod_update s)"
| "solver_update (ProximalPoint s) = tagged ProximalPoint (ProximalPointMethod_update s)"
| "solver_update (Gradient s) = tagged Gradient (GradientMethod_update s)"
| "solver_update (ConjGrad s) = tagged ConjGrad (ConjugateGradient_update s)"
| "solver_update (Newton s) = tagged Newton (NewtonsMethod_update s)"
| "solver_update (PDHG s) = tagged PDHG (PrimalDualHybridGradient_update s)"
| "solver_update (Alternating s) = tagged Alternating (AltMin_update s)"

fun solver_done :: "'e solver \<Rightarrow> bool" where
  "solver_done (Power s) = PowerMethod_done s"
| "solver_done (ProximalPoint s) = ProximalPointMethod_done s"
| "solver_done (Gradient s) = GradientMethod_done s"
| "solver_done (ConjGrad s) = ConjugateGradient_done s"
| "solver_done (Newton s) = NewtonsMethod_done s"
| "solver_done (PDHG s) = PrimalDualHybridGradient_done s"
| "solver_done (Alternating s) = AltMin_done s"

text \<open>\<open>n\<close> calls of \<^verbatim>\<open>update()\<close> in a row; the first exception ends the run.\<close>

primrec run_updates :: "('s \<Rightarrow> ('s, 's) outcome) \<Rightarrow> nat \<Rightarrow> 's \<Rightarrow> ('s, 's) outcome" where
  "run_updates upd 0 s = Inr s"
| "run_updates upd (Suc n) s = seq (upd s) (run_updates upd n)"

section \<open>Concrete solver objects\<close>

text \<open>
  Newton's method for \<open>f(x) = |x|\<^sup>2 / 2\<close> and \<open>g = 0\<close>: the gradient is \<open>x\<close>, the Hessian
  is the identity and so is the proximal operator.
\<close>

definition newton_example :: NewtonsMethod where
  "newton_example =
     \<lparr>max_iter = 10, iter = 0,
      nm_gradf = (\<lambda>v. v), nm_hessf = (\<lambda>v w. w), nm_proxHg = (\<lambda>H v. v),
      nm_sigma = Fin ((3 - sqrt 5) / 2), nm_x = [Fin 1], nm_lamda = PInf\<rparr>"

text \<open>Conjugate gradient after \<^verbatim>\<open>init()\<close> for the zero map, \<open>b = [1]\<close> and \<open>x = [0]\<close>.\<close>

definition cg_flat :: ConjugateGradient where
  "cg_flat =
     \<lparr>max_iter = 5, iter = 0,
      cg_A = map (\<lambda>e. Fin 0), cg_P = None, cg_x = [Fin 0], cg_b = [Fin 1],
      cg_rzold = Fin 1, cg_r = [Fin 1], cg_p = [Fin 1], cg_zero_gradient = False,
      cg_alpha = None, cg_residual = Fin 1\<rparr>"

text \<open>Conjugate gradient after \<^verbatim>\<open>init()\<close> for \<open>A = 2 I\<close>, \<open>b = [2, 4]\<close> and \<open>x = [0, 0]\<close>.\<close>

definition cg_scaled :: ConjugateGradient where
  "cg_scaled =
     \<lparr>max_iter = 5, iter = 0,
      cg_A = smul (Fin 2), cg_P = None, cg_x = [Fin 0, Fin 0], cg_b = [Fin 2, Fin 4],
      cg_rzold = Fin 20, cg_r = [Fin 2, Fin 4], cg_p = [Fin 2, Fin 4],
      cg_zero_gradient = False, cg_alpha = None, cg_residual = Fin (sqrt 20)\<rparr>"

text \<open>Plain primal-dual hybrid gradient on one variable, with identity operators.\<close>

definition pdhg_plain :: PrimalDualHybridGradient where
  "pdhg_plain =
     \<lparr>max_iter = 100, iter = 0,
      pd_proxfc = (\<lambda>sigma v. v), pd_proxg = (\<lambda>tau v. v), pd_A = (\<lambda>v. v), pd_AH = (\<lambda>v. v),
      pd_u = [Fin 0], pd_x = [Fin 1], pd_tau = Scalar (Fin (1 / 2)), pd_sigma = Scalar (Fin (1 / 2)),
      pd_gamma_primal = Fin 0, pd_gamma_dual = Fin 0,
      pd_x_ext = [Fin 1], pd_u_old = [Fin 0], pd_x_old = [Fin 1]\<rparr>"

text \<open>
  The power method on the identity map and on the zero map, and on the identity map with an
  infinite entry in \<open>x\<close>.
\<close>

definition pm_identity :: PowerMethod where
  "pm_identity =
     \<lparr>max_iter = 30, iter = 0, pm_A = (\<lambda>v. v), pm_x = [Fin 3, Fin 4], pm_max_eig = PInf\<rparr>"

definition pm_zero :: PowerMethod where
  "pm_zero =
     \<lparr>max_iter = 30, iter = 0, pm_A = map (\<lambda>e. Fin 0), pm_x = [Fin 3, Fin 4],
      pm_max_eig = PInf\<rparr>"




definition gm_accelerated :: GradientMethod where
  "gm_accelerated =
     \<lparr>max_iter = 100, iter = 0,
      gm_gradf = (\<lambda>v. Argument), gm_alpha = Fin (1 / 2), gm_accelerate = True,
      gm_proxg = None, gm_x = [Fin 4, Fin 8], gm_z = None, gm_t = None, gm_x_old = None,
      gm_residual = PInf\<rparr>"

text \<open>
  Accelerated gradient descent on a constant \<open>f\<close>, whose gradient is a fresh array of
  zeros, from an infinite start.
\<close>

definition gm_accelerated_infinite :: GradientMethod where
  "gm_accelerated_infinite =
     \<lparr>max_iter = 100, iter = 0,
      gm_gradf = (\<lambda>v. Fresh (map (\<lambda>e. Fin 0) v)), gm_alpha = Fin (1 / 2),
      gm_accelerate = True, gm_proxg = None, gm_x = [PInf], gm_z = None, gm_t = None,
      gm_x_old = None, gm_residual = PInf\<rparr>"

section \<open>Basic facts\<close>

lemma feq_zero [simp]: "feq a (Fin 0) \<longleftrightarrow> a = Fin 0"
  by (auto simp: feq_def)

lemma fsub_Fin [simp]: "fsub (Fin a) (Fin b) = Fin (a - b)"
  by (simp add: fsub_def)

lemma fmul_fneg: "fmul (fneg a) b = fneg (fmul a b)"
  by (cases a; cases b) auto

lemma seq_Inr [simp]: "seq (Inr v) f = f v"
  by (simp add: seq_def)

lemma seq_Inl [simp]: "seq (Inl e) f = Inl e"
  by (simp add: seq_def)

lemma getattr_Some [simp]: "getattr (Some v) s = Inr v"
  by (simp add: getattr_def)

lemma getattr_None [simp]: "getattr None s = Inl (AttributeError, s)"
  by (simp add: getattr_def)

lemma Alg_update_iter:
  "Alg_update hook s = Inr s' \<Longrightarrow> \<exists>s1. hook s = Inr s1 \<and> s' = s1\<lparr>iter := iter s1 + 1\<rparr>"
  by (cases "hook s") (simp_all add: Alg_update_def)

lemma tagged_Inr: "tagged C m = Inr t \<Longrightarrow> \<exists>s. m = Inr s \<and> t = C s"
  by (auto simp: tagged_def split: sum.splits prod.splits)

text \<open>\<^verbatim>\<open>axpy(y, -a, v)\<close> is \<open>y - a v\<close>, also on the special values.\<close>

lemma axpy_neg: "util_axpy y (fneg a) v = vsub y (smul a v)"
proof (induction y arbitrary: v)
  case Nil
  then show ?case by (simp add: util_axpy_def vadd_def vsub_def)
next
  case (Cons e y)
  then show ?case
    by (cases v) (simp_all add: util_axpy_def vadd_def vsub_def smul_def fsub_def fmul_fneg)
qed

section \<open>Newton's method: the step is never taken\<close>

lemma NewtonsMethod__update_raises:
  "NewtonsMethod__update s =
     Inl (NameError,
          s\<lparr>nm_lamda :=
              (let H = nm_hessf s (nm_x s);
                   d = vsub (nm_proxHg s H (vsub (H (nm_x s)) (nm_gradf s (nm_x s)))) (nm_x s)
               in pow_half (util_dot d (H d)))\<rparr>)"
  by (simp add: NewtonsMethod__update_def lookup_alpha_def Let_def)

text \<open>
  C1. Claimed: every \<^verbatim>\<open>update()\<close> of Newton's method computes \<open>H\<close>, \<open>s\<close>, \<open>d\<close> and
  \<open>lamda\<close> and then applies \<open>x \<leftarrow> x + alpha d\<close> with \<open>alpha = 1 / (1 + lamda)\<close>. The
  code computes \<open>lamda\<close> and then raises \<^verbatim>\<open>NameError\<close> at \<^verbatim>\<open>alpha\<close>: on the object
  \<open>newton_example\<close> (where \<open>d = [-1]\<close> and \<open>lamda = 1\<close>, so that the claimed step leads
  to \<open>x = [1/2]\<close>) the call ends with the exception, \<open>lamda = 1\<close> and \<open>x = [1]\<close> as before.
\<close>

theorem NewtonsMethod_update_raises_NameError:
  "NewtonsMethod_update (NewtonsMethod_init newton_example) =
     Inl (NameError, newton_example\<lparr>nm_lamda := Fin 1\<rparr>)
   \<and> nm_x (newton_example\<lparr>nm_lamda := Fin 1\<rparr>) = [Fin 1]"
  by (simp add: NewtonsMethod_update_def NewtonsMethod_init_def Alg_update_def Alg_init_def
      Alg__init_def NewtonsMethod__update_raises newton_example_def vsub_def
      util_dot_def vmul_def)

section \<open>The lifecycle of every solver\<close>

lemmas solver_inits = PowerMethod_init_def ProximalPointMethod_init_def GradientMethod_init_def
  ConjugateGradient_init_def NewtonsMethod_init_def PrimalDualHybridGradient_init_def
  AltMin_init_def

lemmas solver_dones = PowerMethod_done_def ProximalPointMethod_done_def GradientMethod_done_def
  ConjugateGradient_done_def NewtonsMethod_done_def PrimalDualHybridGradient_done_def
  AltMin_done_def

lemma solver_init_iter: "solver_iter (solver_init sv) = 0"
  by (cases sv)
    (simp_all add: solver_inits Alg_init_def Alg__init_def PowerMethod__init_def
      GradientMethod__init_def ConjugateGradient__init_def PrimalDualHybridGradient__init_def
      Let_def)

lemma solver_done_at_max:
  "solver_max_iter sv \<le> int (solver_iter sv) \<Longrightarrow> solver_done sv"
  by (cases sv)
    (simp_all add: solver_dones Alg_done_def Alg__done_def GradientMethod__done_def
      ConjugateGradient__done_def)

lemma PowerMethod__update_iter: "PowerMethod__update s = Inr s1 \<Longrightarrow> iter s1 = iter s"
  by (auto simp: PowerMethod__update_def Let_def)

lemma ProximalPointMethod__update_iter:
  "ProximalPointMethod__update s = Inr s1 \<Longrightarrow> iter s1 = iter s"
  by (auto simp: ProximalPointMethod__update_def)

lemma GradientMethod__update_iter: "GradientMethod__update s = Inr s1 \<Longrightarrow> iter s1 = iter s"
  by (auto simp: GradientMethod__update_def Let_def seq_def getattr_def
      split: if_splits option.splits sum.splits)

lemma ConjugateGradient__update_iter:
  "ConjugateGradient__update s = Inr s1 \<Longrightarrow> iter s1 = iter s"
  by (auto simp: ConjugateGradient__update_def Let_def split: if_splits option.splits)

lemma adapt_steps_iter: "adapt_steps s = Inr (th, s1) \<Longrightarrow> iter s1 = iter s"
  by (auto simp: adapt_steps_def Let_def split: if_splits option.splits)

lemma PrimalDualHybridGradient__update_iter:
  "PrimalDualHybridGradient__update s = Inr s1 \<Longrightarrow> iter s1 = iter s"
  by (auto simp: PrimalDualHybridGradient__update_def Let_def seq_def
      split: sum.splits dest!: adapt_steps_iter)

lemma AltMin__update_iter: "AltMin__update s = Inr s1 \<Longrightarrow> iter s1 = iter s"
  by (auto simp: AltMin__update_def Let_def)

text \<open>An \<^verbatim>\<open>update()\<close> that returns has added exactly 1 to the counter, whatever the solver.\<close>

lemma solver_update_iter:
  assumes upd: "solver_update sv = Inr sv'"
  shows "solver_iter sv' = solver_iter sv + 1"
proof (cases sv)
  case (Power s)
  then show ?thesis using upd
    by (auto simp: PowerMethod_update_def
        dest!: tagged_Inr Alg_update_iter PowerMethod__update_iter)
next
  case (ProximalPoint s)
  then show ?thesis using upd
    by (auto simp: ProximalPointMethod_update_def
        dest!: tagged_Inr Alg_update_iter ProximalPointMethod__update_iter)
next
  case (Gradient s)
  then show ?thesis using upd
    by (auto simp: GradientMethod_update_def
        dest!: tagged_Inr Alg_update_iter GradientMethod__update_iter)
next
  case (ConjGrad s)
  then show ?thesis using upd
    by (auto simp: ConjugateGradient_update_def
        dest!: tagged_Inr Alg_update_iter ConjugateGradient__update_iter)
next
  case (Newton s)
  then show ?thesis using upd
    by (auto simp: NewtonsMethod_update_def Alg_update_def NewtonsMethod__update_raises
        dest!: tagged_Inr)
next
  case (PDHG s)
  then show ?thesis using upd
    by (auto simp: PrimalDualHybridGradient_update_def
        dest!: tagged_Inr Alg_update_iter PrimalDualHybridGradient__update_iter)
next
  case (Alternating s)
  then show ?thesis using upd
    by (auto simp: AltMin_update_def dest!: tagged_Inr Alg_update_iter AltMin__update_iter)
qed

text \<open>No \<^verbatim>\<open>update()\<close> of Newton's method returns, so none of them counts.\<close>

lemma Newton_update_never_returns: "solver_update (Newton s) \<noteq> Inr sv'"
  by (auto simp: NewtonsMethod_update_def Alg_update_def NewtonsMethod__update_raises
      tagged_def)

text \<open>
  C2. Claimed: for every solver the counter is 0 after \<^verbatim>\<open>init()\<close>, every
  \<^verbatim>\<open>update()\<close> adds exactly 1 to it, and \<^verbatim>\<open>done()\<close> is true once it has reached
  \<^verbatim>\<open>max_iter\<close>. The first and the last part hold for all seven solvers
  (\<open>solver_init_iter\<close>, \<open>solver_done_at_max\<close>), and so does the second for every call that
  returns (\<open>solver_update_iter\<close>). The \<^verbatim>\<open>update()\<close> of Newton's method raises before the
  counter is touched: on \<open>newton_example\<close> the counter is 0 after \<^verbatim>\<open>init()\<close> and still 0
  after \<^verbatim>\<open>update()\<close>.
\<close>

theorem Newton_update_leaves_counter:
  "solver_iter (solver_init (Newton newton_example) :: unit solver) = 0
   \<and> (\<exists>sv'. solver_update (solver_init (Newton newton_example) :: unit solver)
              = Inl (NameError, sv')
            \<and> solver_iter sv' = 0)"
  by (simp add: NewtonsMethod_update_def NewtonsMethod_init_def Alg_update_def Alg_init_def
      Alg__init_def NewtonsMethod__update_raises newton_example_def tagged_def)

section \<open>Conjugate gradient: the two paths of an update\<close>

lemma ConjugateGradient_update_total:
  "\<exists>s'. ConjugateGradient_update s = Inr s' \<and> (cg_zero_gradient s' \<or> \<not> cg_zero_gradient s)"
  by (simp add: ConjugateGradient_update_def Alg_update_def ConjugateGradient__update_def Let_def)

lemma ConjugateGradient_flag_stays:
  "cg_zero_gradient s \<Longrightarrow>
   \<exists>s'. run_updates ConjugateGradient_update n s = Inr s' \<and> cg_zero_gradient s'"
proof (induction n arbitrary: s)
  case 0
  then show ?case by simp
next
  case (Suc n)
  from ConjugateGradient_update_total [of s] Suc.prems
  obtain s1 where "ConjugateGradient_update s = Inr s1" "cg_zero_gradient s1" by blast
  with Suc.IH [of s1] show ?case by simp
qed

text \<open>
  C3. When \<open>dot(p, A(p)) = 0\<close>, \<^verbatim>\<open>update()\<close> of conjugate gradient returns without an
  exception, and the object differs from the one before the call in the flag
  \<^verbatim>\<open>zero_gradient\<close>, now true, and in the counter only: \<open>x\<close>, \<open>r\<close>, \<open>p\<close>,
  \<open>rzold\<close> and \<open>residual\<close> are as before. After any number of further updates, none of
  which raises, \<^verbatim>\<open>done()\<close> is true.
\<close>

theorem ConjugateGradient_zero_curvature:
  assumes "util_dot (cg_p s) (cg_A s (cg_p s)) = Fin 0"
  shows "ConjugateGradient_update s = Inr (s\<lparr>cg_zero_gradient := True, iter := iter s + 1\<rparr>)
         \<and> (\<forall>n. \<exists>s'. run_updates ConjugateGradient_update n
                        (s\<lparr>cg_zero_gradient := True, iter := iter s + 1\<rparr>) = Inr s'
                      \<and> ConjugateGradient_done s')"
proof -
  let ?s = "s\<lparr>cg_zero_gradient := True, iter := iter s + 1\<rparr>"
  have step: "ConjugateGradient_update s = Inr ?s"
    using assms
    by (simp add: ConjugateGradient_update_def Alg_update_def ConjugateGradient__update_def Let_def)
  have flag: "cg_zero_gradient ?s" by simp
  have "\<exists>s'. run_updates ConjugateGradient_update n ?s = Inr s' \<and> ConjugateGradient_done s'" for n
    using ConjugateGradient_flag_stays [OF flag, of n]
    by (auto simp: ConjugateGradient_done_def Alg_done_def ConjugateGradient__done_def)
  with step show ?thesis by blast
qed

theorem ConjugateGradient_zero_curvature_witness:
  "util_dot (cg_p cg_flat) (cg_A cg_flat (cg_p cg_flat)) = Fin 0
   \<and> ConjugateGradient_update cg_flat = Inr (cg_flat\<lparr>cg_zero_gradient := True, iter := 1\<rparr>)
   \<and> cg_x (cg_flat\<lparr>cg_zero_gradient := True, iter := 1\<rparr>) = [Fin 0]
   \<and> (\<exists>s'. run_updates ConjugateGradient_update 3
              (cg_flat\<lparr>cg_zero_gradient := True, iter := 1\<rparr>) = Inr s'
           \<and> ConjugateGradient_done s')"
proof -
  have h: "util_dot (cg_p cg_flat) (cg_A cg_flat (cg_p cg_flat)) = Fin 0"
    by (simp add: cg_flat_def util_dot_def vmul_def)
  have i: "iter cg_flat = 0" by (simp add: cg_flat_def)
  have x: "cg_x cg_flat = [Fin 0]" by (simp add: cg_flat_def)
  from ConjugateGradient_zero_curvature [OF h] h i x show ?thesis by simp
qed

text \<open>
  C6. When \<open>dot(p, A(p)) \<noteq> 0\<close>, \<^verbatim>\<open>update()\<close> of conjugate gradient sets
  \<open>alpha = rzold / pAp\<close> and \<open>x \<leftarrow> x + alpha p\<close>. If the counter is below
  \<open>max_iter - 1\<close> it also sets \<open>r \<leftarrow> r - alpha Ap\<close>, takes \<open>z = P(r)\<close> (or \<open>z = r\<close>
  without a preconditioner), \<open>rznew = dot(r, z)\<close> and \<open>beta = rznew / rzold\<close>, and sets
  \<open>p \<leftarrow> z + beta p\<close> and \<open>rzold \<leftarrow> rznew\<close>; otherwise \<open>r\<close>, \<open>p\<close> and \<open>rzold\<close> are
  as before. In both cases \<open>residual\<close> is the square root of the \<open>rzold\<close> it leaves.
\<close>

theorem ConjugateGradient_update_step:
  assumes "util_dot (cg_p s) (cg_A s (cg_p s)) \<noteq> Fin 0"
  shows "let Ap = cg_A s (cg_p s);
             alpha = fdiv (cg_rzold s) (util_dot (cg_p s) Ap);
             r' = vsub (cg_r s) (smul alpha Ap);
             z = (case cg_P s of None \<Rightarrow> r' | Some P \<Rightarrow> P r');
             rznew = util_dot r' z;
             beta = fdiv rznew (cg_rzold s)
         in \<exists>s'. ConjugateGradient_update s = Inr s'
              \<and> iter s' = iter s + 1
              \<and> cg_zero_gradient s' = cg_zero_gradient s
              \<and> cg_alpha s' = Some alpha
              \<and> cg_x s' = vadd (cg_x s) (smul alpha (cg_p s))
              \<and> (if int (iter s) < max_iter s - 1
                  then cg_r s' = r' \<and> cg_p s' = vadd z (smul beta (cg_p s)) \<and> cg_rzold s' = rznew
                  else cg_r s' = cg_r s \<and> cg_p s' = cg_p s \<and> cg_rzold s' = cg_rzold s)
              \<and> cg_residual s' = pow_half (cg_rzold s')"
  using assms
  by (cases "cg_P s")
    (simp_all add: ConjugateGradient_update_def Alg_update_def ConjugateGradient__update_def
      Let_def axpy_neg util_move_def util_xpay_def, simp_all add: util_axpy_def)

theorem ConjugateGradient_update_step_witness:
  "util_dot (cg_p cg_scaled) (cg_A cg_scaled (cg_p cg_scaled)) \<noteq> Fin 0
   \<and> (\<exists>s'. ConjugateGradient_update cg_scaled = Inr s'
          \<and> cg_alpha s' = Some (Fin (1 / 2)) \<and> cg_x s' = [Fin 1, Fin 2]
          \<and> cg_r s' = [Fin 0, Fin 0] \<and> cg_p s' = [Fin 0, Fin 0]
          \<and> cg_rzold s' = Fin 0 \<and> cg_residual s' = Fin 0)
   \<and> (\<exists>s'. ConjugateGradient_update (cg_scaled\<lparr>iter := 4\<rparr>) = Inr s'
          \<and> cg_alpha s' = Some (Fin (1 / 2)) \<and> cg_x s' = [Fin 1, Fin 2]
          \<and> cg_r s' = [Fin 2, Fin 4] \<and> cg_p s' = [Fin 2, Fin 4]
          \<and> cg_rzold s' = Fin 20 \<and> cg_residual s' = Fin (sqrt 20))"
proof -
  have h: "util_dot (cg_p cg_scaled) (cg_A cg_scaled (cg_p cg_scaled)) \<noteq> Fin 0"
    by (simp add: cg_scaled_def util_dot_def vmul_def smul_def)
  then have h': "util_dot (cg_p (cg_scaled\<lparr>iter := 4\<rparr>))
                  (cg_A (cg_scaled\<lparr>iter := 4\<rparr>) (cg_p (cg_scaled\<lparr>iter := 4\<rparr>))) \<noteq> Fin 0"
    by simp
  have first: "\<exists>s'. ConjugateGradient_update cg_scaled = Inr s'
          \<and> cg_alpha s' = Some (Fin (1 / 2)) \<and> cg_x s' = [Fin 1, Fin 2]
          \<and> cg_r s' = [Fin 0, Fin 0] \<and> cg_p s' = [Fin 0, Fin 0]
          \<and> cg_rzold s' = Fin 0 \<and> cg_residual s' = Fin 0"
    using ConjugateGradient_update_step [OF h]
    by (auto simp: cg_scaled_def Let_def util_dot_def vmul_def smul_def vadd_def vsub_def)
  have last: "\<exists>s'. ConjugateGradient_update (cg_scaled\<lparr>iter := 4\<rparr>) = Inr s'
          \<and> cg_alpha s' = Some (Fin (1 / 2)) \<and> cg_x s' = [Fin 1, Fin 2]
          \<and> cg_r s' = [Fin 2, Fin 4] \<and> cg_p s' = [Fin 2, Fin 4]
          \<and> cg_rzold s' = Fin 20 \<and> cg_residual s' = Fin (sqrt 20)"
    using ConjugateGradient_update_step [OF h']
    by (auto simp: cg_scaled_def Let_def util_dot_def vmul_def smul_def vadd_def vsub_def)
  from h first last show ?thesis by blast
qed

section \<open>Primal-dual hybrid gradient without acceleration\<close>

lemma adapt_steps_plain:
  "pd_gamma_primal s = Fin 0 \<Longrightarrow> pd_gamma_dual s = Fin 0 \<Longrightarrow> adapt_steps s = Inr (Fin 1, s)"
  by (simp add: adapt_steps_def)

text \<open>
  C4. With \<open>gamma_primal = 0\<close> and \<open>gamma_dual = 0\<close>, \<^verbatim>\<open>update()\<close> of primal-dual
  hybrid gradient takes the last branch of the step-size adaptation: \<open>theta\<close> is 1, the
  step sizes \<open>tau\<close> and \<open>sigma\<close> are as before, and the extrapolated point becomes
  \<open>x + 1 (x - x_old)\<close> for the new \<open>x\<close> and the \<open>x\<close> before the call. Nothing else
  changes but \<open>u\<close>, \<open>x\<close>, their snapshots and the counter, so the same holds at every
  later update.
\<close>

theorem PrimalDualHybridGradient_plain_theta:
  assumes "pd_gamma_primal s = Fin 0" and "pd_gamma_dual s = Fin 0"
  shows "let u' = pd_proxfc s (pd_sigma s)
                    (vadd (pd_u s) (step_mul (pd_sigma s) (pd_A s (pd_x_ext s))));
             x' = pd_proxg s (pd_tau s) (vsub (pd_x s) (step_mul (pd_tau s) (pd_AH s u')));
             s4 = s\<lparr>pd_u := u', pd_x := x', pd_u_old := pd_u s, pd_x_old := pd_x s\<rparr>
         in adapt_steps s4 = Inr (Fin 1, s4)
          \<and> PrimalDualHybridGradient_update s =
              Inr (s4\<lparr>pd_x_ext := vadd x' (smul (Fin 1) (vsub x' (pd_x s))),
                     iter := iter s + 1\<rparr>)
          \<and> pd_tau s4 = pd_tau s \<and> pd_sigma s4 = pd_sigma s"
  using assms
  by (simp add: PrimalDualHybridGradient_update_def Alg_update_def
      PrimalDualHybridGradient__update_def Let_def adapt_steps_plain util_move_to_def)

theorem PrimalDualHybridGradient_plain_theta_witness:
  "pd_gamma_primal pdhg_plain = Fin 0 \<and> pd_gamma_dual pdhg_plain = Fin 0
   \<and> PrimalDualHybridGradient_update pdhg_plain =
       Inr (pdhg_plain\<lparr>pd_u := [Fin (1 / 2)], pd_x := [Fin (3 / 4)], pd_x_ext := [Fin (1 / 2)],
                       iter := 1\<rparr>)"
proof -
  have p: "pd_gamma_primal pdhg_plain = Fin 0" and d: "pd_gamma_dual pdhg_plain = Fin 0"
    by (simp_all add: pdhg_plain_def)
  from PrimalDualHybridGradient_plain_theta [OF p d] p d show ?thesis
    by (simp add: pdhg_plain_def Let_def vadd_def vsub_def smul_def)
qed

section \<open>Power method: one update\<close>

text \<open>An update takes one path, whatever \<open>A(x)\<close> is.\<close>

lemma PowerMethod_update_eq:
  "PowerMethod_update s =
     Inr (s\<lparr>pm_max_eig := util_norm (pm_A s (pm_x s)),
            pm_x := vdivs (pm_A s (pm_x s)) (util_norm (pm_A s (pm_x s))),
            iter := iter s + 1\<rparr>)"
  by (simp add: PowerMethod_update_def Alg_update_def PowerMethod__update_def Let_def
      util_move_to_def)



lemma vmul_zeros: "vmul (replicate n (Fin 0)) (replicate n (Fin 0)) = replicate n (Fin 0)"
  by (induction n) (simp_all add: vmul_def)

lemma fsum_zeros: "fsum (replicate n (Fin 0)) = Fin 0"
  by (induction n) simp_all

lemma util_norm_zeros: "util_norm (replicate n (Fin 0)) = Fin 0"
  by (simp add: util_norm_def util_dot_def vmul_zeros fsum_zeros)

text \<open>
  C9. Every \<^verbatim>\<open>update()\<close> of the power method sets \<open>max_eig\<close> to the norm of \<open>A(x)\<close>
  and divides every entry of \<open>A(x)\<close> by it, on one path for every input: no branch guards
  the division. When \<open>A(x)\<close> is the zero array, \<open>max_eig\<close> is 0, the division is a
  division by zero, and the call returns as any other and leaves \<open>x\<close> full of \<open>NaN\<close>.
\<close>

theorem PowerMethod_update_divides_by_zero:
  "\<exists>s'. PowerMethod_update s = Inr s'
       \<and> iter s' = iter s + 1
       \<and> pm_max_eig s' = util_norm (pm_A s (pm_x s))
       \<and> pm_x s' = vdivs (pm_A s (pm_x s)) (pm_max_eig s')
       \<and> (pm_A s (pm_x s) = replicate n (Fin 0)
            \<longrightarrow> pm_max_eig s' = Fin 0
              \<and> pm_x s' = map (\<lambda>e. fdiv e (Fin 0)) (replicate n (Fin 0))
              \<and> pm_x s' = replicate n NaN)"
  by (simp add: PowerMethod_update_eq util_norm_zeros vdivs_def)

theorem PowerMethod_update_divides_by_zero_witness:
  "pm_A pm_zero (pm_x pm_zero) = replicate 2 (Fin 0)
   \<and> (\<exists>s'. PowerMethod_update pm_zero = Inr s'
          \<and> pm_max_eig s' = Fin 0 \<and> pm_x s' = [NaN, NaN] \<and> iter s' = 1)"
proof -
  have h: "pm_A pm_zero (pm_x pm_zero) = replicate 2 (Fin 0)"
    by (simp add: pm_zero_def numeral_2_eq_2)
  have i: "iter pm_zero = 0" by (simp add: pm_zero_def)
  from PowerMethod_update_divides_by_zero [of pm_zero 2] h i show ?thesis
    by (auto simp: numeral_2_eq_2)
qed

section \<open>Gradient method: termination, plain descent, first accelerated step\<close>

text \<open>
  C8. \<^verbatim>\<open>done()\<close> of the gradient method is true exactly when the counter has reached
  \<open>max_iter\<close> or the residual is the number 0 itself: no tolerance enters the test.
  Right after \<^verbatim>\<open>init()\<close> the residual is \<open>+inf\<close> and the counter 0, so
  \<^verbatim>\<open>done()\<close> is true there only for \<open>max_iter \<le> 0\<close>.
\<close>

theorem GradientMethod_done_iff:
  "(GradientMethod_done s \<longleftrightarrow> (max_iter s \<le> int (iter s) \<or> gm_residual s = Fin 0))
   \<and> (GradientMethod_done (GradientMethod_init s) \<longleftrightarrow> max_iter s \<le> 0)"
  by (simp add: GradientMethod_done_def Alg_done_def GradientMethod__done_def
      GradientMethod_init_def Alg_init_def GradientMethod__init_def Let_def)

lemmas GradientMethod_unfold = GradientMethod_init_def Alg_init_def GradientMethod__init_def
  GradientMethod_update_def Alg_update_def GradientMethod__update_def Let_def
  array_copy_def util_move_to_def util_move_def axpy_neg






lemma golden_nonzero: "1 + sqrt 5 \<noteq> 0"
proof -
  have "0 \<le> sqrt 5" by simp
  then have "0 < 1 + sqrt 5" by linarith
  then show ?thesis by simp
qed

lemma first_weight:
  "fdiv (fsub (Fin 1) (Fin 1))
     (fdiv (fadd (Fin 1) (pow_half (fadd (Fin 1) (fmul (Fin 4) (fmul (Fin 1) (Fin 1))))))
        (Fin 2)) = Fin 0"
  using golden_nonzero by simp

lemma fsub_Fin_operands: "fsub a b = Fin d \<Longrightarrow> \<exists>a' b'. a = Fin a' \<and> b = Fin b'"
  by (cases a; cases b) (simp_all add: fsub_def)

text \<open>Adding \<open>0 (x - x_old)\<close> to \<open>x\<close> changes nothing where the difference is finite.\<close>

lemma zero_weight:
  "vsub v w = map Fin ds \<Longrightarrow> length ds = length v \<Longrightarrow>
   vadd v (smul (Fin 0) (vsub v w)) = v"
proof (induction v arbitrary: w ds)
  case Nil
  then show ?case by (simp add: vadd_def)
next
  case (Cons e v)
  from Cons.prems obtain e' w' where w: "w = e' # w'"
    by (cases w) (auto simp: vsub_def)
  from Cons.prems obtain d ds' where ds: "ds = d # ds'"
    by (cases ds) auto
  from Cons.prems have hd: "fsub e e' = Fin d" and tl: "vsub v w' = map Fin ds'"
    and len: "length ds' = length v"
    by (simp_all add: w ds vsub_def)
  from fsub_Fin_operands [OF hd] obtain a b where e: "e = Fin a" "e' = Fin b" by blast
  from Cons.IH [OF tl len] have "vadd v (smul (Fin 0) (vsub v w')) = v" .
  then show ?case
    by (simp add: w e vadd_def vsub_def smul_def)
qed

text \<open>
  After the first accelerated update \<open>z\<close> is not \<open>x\<close> for every input: for a gradient of
  zeros and \<open>x\<^sub>0 = [inf]\<close> the update leaves \<open>x = [inf]\<close>, and
  \<open>z = inf + 0 (inf - inf) = NaN\<close>.
\<close>

theorem GradientMethod_momentum_point_differs:
  "gm_accelerate gm_accelerated_infinite
   \<and> (\<exists>s1. GradientMethod_update (GradientMethod_init gm_accelerated_infinite) = Inr s1
          \<and> gm_x s1 = [PInf] \<and> gm_z s1 = Some [NaN] \<and> gm_z s1 \<noteq> Some (gm_x s1))"
  using golden_nonzero
  by (simp add: gm_accelerated_infinite_def GradientMethod_unfold contents_def vsub_def smul_def
      vadd_def fsub_def)

text \<open>
  C10, amended. With acceleration, \<^verbatim>\<open>init()\<close> sets \<open>t = 1\<close> and \<open>z\<close> to a copy of
  \<open>x\<close>. The first \<^verbatim>\<open>update()\<close> returns with \<open>t\<close> as \<^verbatim>\<open>(1 + (1 + 4 * 1**2)**0.5) / 2\<close>; its
  extrapolation weight \<open>(t_old - 1) / t\<close> is 0; the \<open>x\<close> it leaves is the one a plain
  (proximal) gradient step from the same start leaves; and \<open>z\<close> is \<open>x + 0 (x - x_old)\<close>,
  which is \<open>x\<close> whenever every entry of the difference \<open>x - x_old\<close> is finite.
\<close>

theorem GradientMethod_first_accelerated_step:
  assumes "gm_accelerate s"
  shows "let s0 = GradientMethod_init s;
             y = vsub (gm_x s) (smul (gm_alpha s) (contents (gm_gradf s (gm_x s)) (gm_x s)));
             x1 = (case gm_proxg s of None \<Rightarrow> y | Some proxg \<Rightarrow> proxg (gm_alpha s) y);
             t_new = fdiv (fadd (Fin 1)
                             (pow_half (fadd (Fin 1) (fmul (Fin 4) (fmul (Fin 1) (Fin 1))))))
                       (Fin 2)
         in gm_t s0 = Some (Fin 1) \<and> gm_z s0 = Some (gm_x s)
          \<and> fdiv (fsub (Fin 1) (Fin 1)) t_new = Fin 0
          \<and> (\<exists>s1. GradientMethod_update s0 = Inr s1
                 \<and> gm_t s1 = Some t_new \<and> gm_x s1 = x1
                 \<and> gm_z s1 = Some (vadd x1 (smul (Fin 0) (vsub x1 (gm_x s))))
                 \<and> (vsub x1 (gm_x s) = map Fin ds \<and> length ds = length x1
                      \<longrightarrow> gm_z s1 = Some (gm_x s1)))
          \<and> (\<exists>s2. GradientMethod_update (GradientMethod_init (s\<lparr>gm_accelerate := False\<rparr>))
                      = Inr s2
                 \<and> gm_x s2 = x1)"
proof -
  let ?s0 = "GradientMethod_init s"
  let ?y = "vsub (gm_x s) (smul (gm_alpha s) (contents (gm_gradf s (gm_x s)) (gm_x s)))"
  let ?x1 = "case gm_proxg s of None \<Rightarrow> ?y | Some proxg \<Rightarrow> proxg (gm_alpha s) ?y"
  let ?t = "fdiv (fadd (Fin 1) (pow_half (fadd (Fin 1) (fmul (Fin 4) (fmul (Fin 1) (Fin 1))))))
              (Fin 2)"
  let ?z1 = "vadd ?x1 (smul (Fin 0) (vsub ?x1 (gm_x s)))"
  have i: "gm_t ?s0 = Some (Fin 1)" "gm_z ?s0 = Some (gm_x s)"
    using assms by (simp_all add: GradientMethod_unfold)
  have u: "\<exists>s1. GradientMethod_update ?s0 = Inr s1
             \<and> gm_t s1 = Some ?t \<and> gm_x s1 = ?x1 \<and> gm_z s1 = Some ?z1"
    using assms golden_nonzero
    by (cases "gm_proxg s") (simp_all add: GradientMethod_unfold)
  have w: "?z1 = ?x1" if "vsub ?x1 (gm_x s) = map Fin ds" "length ds = length ?x1"
    using that by (rule zero_weight)
  have p: "\<exists>s2. GradientMethod_update (GradientMethod_init (s\<lparr>gm_accelerate := False\<rparr>)) = Inr s2
             \<and> gm_x s2 = ?x1"
    by (cases "gm_proxg s") (simp_all add: GradientMethod_unfold)
  from u obtain s1 where s1: "GradientMethod_update ?s0 = Inr s1"
    "gm_t s1 = Some ?t" "gm_x s1 = ?x1" "gm_z s1 = Some ?z1"
    by blast
  have "vsub ?x1 (gm_x s) = map Fin ds \<and> length ds = length ?x1
          \<longrightarrow> gm_z s1 = Some (gm_x s1)"
    using w s1(3,4) by simp
  with s1 have u': "\<exists>s1. GradientMethod_update ?s0 = Inr s1
             \<and> gm_t s1 = Some ?t \<and> gm_x s1 = ?x1 \<and> gm_z s1 = Some ?z1
             \<and> (vsub ?x1 (gm_x s) = map Fin ds \<and> length ds = length ?x1
                  \<longrightarrow> gm_z s1 = Some (gm_x s1))"
    by blast
  show ?thesis
    unfolding Let_def using i first_weight u' p by blast
qed

theorem GradientMethod_first_accelerated_step_witness:
  "gm_accelerate gm_accelerated
   \<and> gm_t (GradientMethod_init gm_accelerated) = Some (Fin 1)
   \<and> vsub [Fin 2, Fin 4] (gm_x gm_accelerated) = map Fin [- 2, - 4]
   \<and> (\<exists>s1. GradientMethod_update (GradientMethod_init gm_accelerated) = Inr s1
          \<and> gm_x s1 = [Fin 2, Fin 4] \<and> gm_z s1 = Some [Fin 2, Fin 4])
   \<and> (\<exists>s2. GradientMethod_update (GradientMethod_init (gm_accelerated\<lparr>gm_accelerate := False\<rparr>))
               = Inr s2
          \<and> gm_x s2 = [Fin 2, Fin 4])"
proof -
  have h: "gm_accelerate gm_accelerated" by (simp add: gm_accelerated_def)
  have x: "gm_x gm_accelerated = [Fin 4, Fin 8]" "gm_proxg gm_accelerated = None"
    "gm_alpha gm_accelerated = Fin (1 / 2)" "gm_gradf gm_accelerated = (\<lambda>v. Argument)"
    by (simp_all add: gm_accelerated_def)
  from GradientMethod_first_accelerated_step [OF h, of "[- 2, - 4]"] h show ?thesis
    by (auto simp: Let_def x vsub_def smul_def contents_def)
qed

end
